theory Spec2Isabelle
  imports Main "HOL-Library.Sublist"
begin

section \<open>Go values: errors, outcomes, formatted strings\<close>

text \<open>
  A Go \<^verbatim>\<open>error\<close> value. \<open>New\<close> is \<^verbatim>\<open>errors.New\<close>, \<open>Errorf\<close> is
  \<^verbatim>\<open>fmt.Errorf\<close> with a format ending in \<^verbatim>\<open>%w\<close> and the (possibly nil) error
  handed to that verb, \<open>DeadlineExceeded\<close> is \<^verbatim>\<open>context.DeadlineExceeded\<close>,
  \<open>NotFound\<close> is an error of the container runtime that its client classifies as
  "not found", and \<open>External\<close> is any other error produced by a collaborator
  (runtime client, database driver, operating system). A nil error is \<open>None\<close> of
  \<open>error option\<close>.
\<close>

datatype error =
    New string
  | Errorf string "error option"
  | DeadlineExceeded
  | NotFound string
  | External string

text \<open>How a call ends: it returns a value, it panics with an error, or it never returns.\<close>

datatype 'a outcome = Returned 'a | Panicked error | NotReturned

fun Unwrap :: "error \<Rightarrow> error option" where
  "Unwrap (Errorf f e) = e"
| "Unwrap e = None"

text \<open>\<^verbatim>\<open>errors.Is\<close>: the target is looked for along the chain of wrapped errors.\<close>

fun errorsIs :: "error \<Rightarrow> error \<Rightarrow> bool" where
  "errorsIs (Errorf f (Some e)) t = (Errorf f (Some e) = t \<or> errorsIs e t)"
| "errorsIs e t = (e = t)"

text \<open>\<^verbatim>\<open>client.IsErrNotFound\<close> and \<^verbatim>\<open>errdefs.IsNotFound\<close>; both are false on nil.\<close>

fun IsNotFound :: "error option \<Rightarrow> bool" where
  "IsNotFound (Some (NotFound m)) = True"
| "IsNotFound e = False"

text \<open>
  \<^verbatim>\<open>fmt.Sprintf\<close> restricted to string operands and the verbs the source uses with
  them: \<^verbatim>\<open>%s\<close> (and \<^verbatim>\<open>%w\<close>, which \<^verbatim>\<open>fmt.Errorf\<close> prints the same way) is replaced by
  the next argument, copied byte for byte; every other byte of the format is copied.
\<close>

fun Sprintf :: "string \<Rightarrow> string list \<Rightarrow> string" where
  "Sprintf [] args = []"
| "Sprintf [c] args = [c]"
| "Sprintf (c # v # rest) args =
     (if c = CHR ''%'' \<and> (v = CHR ''s'' \<or> v = CHR ''w'')
      then (case args of
              [] \<Rightarrow> ''%!s(MISSING)'' @ Sprintf rest []
            | a # as \<Rightarrow> a @ Sprintf rest as)
      else c # Sprintf (v # rest) args)"

section \<open>The instance handle and the database it talks to\<close>

text \<open>
  The connection handle \<^verbatim>\<open>*sql.DB\<close> is identified by the descriptor it was opened with.
\<close>

datatype sqlDB = SqlDB string

record MySQLBox =
  dsn :: string
  databaseName :: string
  db :: sqlDB
  containerName :: string
  containerID :: string
  schemaFile :: "string option"
  port :: int
  doNotCleanTables :: "string list"

text \<open>
  The database behind the handle is a collaborator, so it is a parameter: \<open>Query\<close>
  answers a statement with one argument by an error or by the rows the cursor yields
  (each row scans to a string or fails), \<open>Exec\<close> runs a statement on the database
  state \<open>'db\<close> and gives the error (nil on success) and the state afterwards.
\<close>

record 'db driver =
  Query :: "string \<Rightarrow> string \<Rightarrow> 'db \<Rightarrow> error + (error + string) list"
  Exec :: "string \<Rightarrow> 'db \<Rightarrow> error option \<times> 'db"

definition nilError :: error where
  "nilError = New ''mysqlbox is nil''"

definition truncateStmt :: "string \<Rightarrow> string" where
  "truncateStmt table = Sprintf ''TRUNCATE TABLE `%s`'' [table]"

definition catalogQuery :: string where
  "catalogQuery = ''SELECT table_name FROM information_schema.tables WHERE table_schema = ?''"

text \<open>
  The exclusion map of \<^verbatim>\<open>CleanAllTables\<close>: a \<^verbatim>\<open>map[string]bool\<close> filled from the
  list; a missing key reads as false.
\<close>

definition excludedTables :: "string list \<Rightarrow> string \<Rightarrow> bool" where
  "excludedTables ts = foldl (\<lambda>m table. m(table := True)) (\<lambda>_. False) ts"

text \<open>
  The loop over the catalog rows. The result is the outcome, the database afterwards,
  and the statements handed to \<open>Exec\<close> in order.
\<close>

fun truncateRows :: "'db driver \<Rightarrow> (string \<Rightarrow> bool) \<Rightarrow> (error + string) list \<Rightarrow> 'db
    \<Rightarrow> error option outcome \<times> 'db \<times> string list" where
  "truncateRows drv excluded [] d = (Returned None, d, [])"
| "truncateRows drv excluded (row # rows) d =
     (case row of
        Inl err \<Rightarrow> (Panicked err, d, [])
      | Inr table \<Rightarrow>
          if excluded table then truncateRows drv excluded rows d
          else (let query = truncateStmt table in
                case Exec drv query d of
                  (Some err, d') \<Rightarrow> (Panicked err, d', [query])
                | (None, d') \<Rightarrow>
                    (case truncateRows drv excluded rows d' of
                       (res, d'', issued) \<Rightarrow> (res, d'', query # issued))))"

definition CleanAllTables :: "'db driver \<Rightarrow> MySQLBox option \<Rightarrow> 'db
    \<Rightarrow> error option outcome \<times> 'db \<times> string list" where
  "CleanAllTables drv b d =
     (case b of
        None \<Rightarrow> (Returned (Some nilError), d, [])
      | Some box \<Rightarrow>
          (case Query drv catalogQuery (databaseName box) d of
             Inl err \<Rightarrow> (Panicked err, d, [])
           | Inr rows \<Rightarrow> truncateRows drv (excludedTables (doNotCleanTables box)) rows d))"

text \<open>
  The loop of \<^verbatim>\<open>CleanTables\<close>: the database afterwards, the statements handed to
  \<open>Exec\<close>, and the lines written to the standard error stream.
\<close>

definition truncateFailed :: "string \<Rightarrow> string \<Rightarrow> string" where
  "truncateFailed table msg = Sprintf ''truncate table failed (%s): %s'' [table, msg] @ [CHR 0x0A]"

fun errorText :: "error \<Rightarrow> string" where
  "errorText (New m) = m"
| "errorText (Errorf f None) = Sprintf f [''%!w(<nil>)'']"
| "errorText (Errorf f (Some e)) = Sprintf f [errorText e]"
| "errorText DeadlineExceeded = ''context deadline exceeded''"
| "errorText (NotFound m) = m"
| "errorText (External m) = m"

fun truncateEach :: "'db driver \<Rightarrow> string list \<Rightarrow> 'db \<Rightarrow> 'db \<times> string list \<times> string list" where
  "truncateEach drv [] d = (d, [], [])"
| "truncateEach drv (table # tables) d =
     (let query = truncateStmt table in
      case Exec drv query d of
        (err, d') \<Rightarrow>
          (case truncateEach drv tables d' of
             (d'', issued, logged) \<Rightarrow>
               (d'', query # issued,
                (case err of
                   None \<Rightarrow> logged
                 | Some e \<Rightarrow> truncateFailed table (errorText e) # logged))))"

definition CleanTables :: "'db driver \<Rightarrow> MySQLBox option \<Rightarrow> string list \<Rightarrow> 'db
    \<Rightarrow> error option outcome \<times> 'db \<times> string list \<times> string list" where
  "CleanTables drv b tables d =
     (case b of
        None \<Rightarrow> (Returned (Some nilError), d, [], [])
      | Some box \<Rightarrow>
          (case truncateEach drv tables d of
             (d', issued, logged) \<Rightarrow> (Returned None, d', issued, logged)))"

text \<open>The accessors; each checks the receiver first.\<close>

definition DB :: "MySQLBox option \<Rightarrow> error + sqlDB" where
  "DB b = (case b of None \<Rightarrow> Inl nilError | Some box \<Rightarrow> Inr (db box))"

definition DSN :: "MySQLBox option \<Rightarrow> error + string" where
  "DSN b = (case b of None \<Rightarrow> Inl nilError | Some box \<Rightarrow> Inr (dsn box))"

definition ContainerName :: "MySQLBox option \<Rightarrow> error + string" where
  "ContainerName b = (case b of None \<Rightarrow> Inl nilError | Some box \<Rightarrow> Inr (containerName box))"

section \<open>Configuration\<close>

record Data =
  buf :: "string option"
  reader :: "string option"

text \<open>
  \<^verbatim>\<open>Config\<close>; the field \<^verbatim>\<open>ContainerName\<close> carries a suffix because the handle has a
  method of that name. The two log writers are sinks of the runtime's output and are
  left out; \<open>LoggedErrors\<close> is the optional collector of error lines.
\<close>

record Config =
  ContainerName_cfg :: string
  Image :: string
  Database :: string
  RootPassword :: string
  MySQLPort :: int
  InitialSQL :: "Data option"
  DoNotCleanTables :: "string list"
  LoggedErrors :: "string list option"

definition zeroConfig :: Config where
  "zeroConfig = \<lparr>ContainerName_cfg = [], Image = [], Database = [], RootPassword = [],
     MySQLPort = 0, InitialSQL = None, DoNotCleanTables = [], LoggedErrors = None\<rparr>"

definition defaultMySQLImage :: string where
  "defaultMySQLImage = ''mysql:8''"

definition startTimeout :: nat where
  "startTimeout = 30"

definition containerStopTimeoutDur :: nat where
  "containerStopTimeoutDur = 60"

text \<open>\<^verbatim>\<open>LoadDefaults\<close>; the random identifier comes from a helper outside these sources.\<close>

definition LoadDefaults :: "string \<Rightarrow> Config \<Rightarrow> Config" where
  "LoadDefaults rid c =
     (let c1 = (if Image c = [] then c\<lparr>Image := defaultMySQLImage\<rparr> else c);
          c2 = (if Database c1 = [] then c1\<lparr>Database := ''testing''\<rparr> else c1)
      in if ContainerName_cfg c2 = []
         then c2\<lparr>ContainerName_cfg := Sprintf ''mysqlbox-%s'' [rid]\<rparr> else c2)"

section \<open>The container runtime and the effects of the lifecycle\<close>

datatype waitResult = WaitMsg | WaitErr "error option"

text \<open>
  What the collaborators answer. Each field is the result of the call of that name;
  \<open>ContainerCreate\<close> is indexed by the number of earlier calls, \<open>PingContext\<close> gives,
  for a deadline in seconds, the results of the successive probes under that deadline,
  \<open>containerClosed i\<close> says whether the exit signal is in the channel when the
  \<open>i\<close>-th non-blocking receive of the polling loop runs, and \<open>ContainerWait\<close> is the
  first value delivered on either channel of the removal wait (\<open>None\<close>: neither
  channel ever delivers).
\<close>

record runtime =
  randomID :: string
  TempFile :: "error + string"
  Copy :: "error option"
  NewClientWithOpts :: "error option"
  ContainerCreate :: "nat \<Rightarrow> error + string"
  ImagePull :: "error option"
  DisplayJSONMessagesStream :: "error option"
  ContainerStart :: "error option"
  ContainerInspect :: "error + string list"
  Atoi :: "string \<Rightarrow> error + int"
  FormatDSN :: "int \<Rightarrow> string \<Rightarrow> string \<Rightarrow> string"
  Open :: "string \<Rightarrow> error option"
  PingContext :: "nat \<Rightarrow> error option list"
  containerClosed :: "nat \<Rightarrow> bool"
  ContainerStop :: "error option"
  ContainerWait :: "waitResult option"

text \<open>The effects on the host and on the runtime, in the order they happen.\<close>

datatype event =
    EvTempFile string
  | EvCopy string string
  | EvImagePull string
  | EvContainerCreate string string "string option"
  | EvContainerStart string
  | EvReadContainerLogs string
  | EvContainerStop string nat
  | EvContainerWaitRemoved string
  | EvClose string
  | EvRemove string

text \<open>\<^verbatim>\<open>cleanupFiles\<close>: closes and removes the schema file when the handle has one.\<close>

definition cleanupFiles :: "MySQLBox \<Rightarrow> event list" where
  "cleanupFiles b =
     (case schemaFile b of None \<Rightarrow> [] | Some name \<Rightarrow> [EvClose name, EvRemove name])"

definition stopContainer :: "runtime \<Rightarrow> MySQLBox \<Rightarrow> error option \<times> event list" where
  "stopContainer rt b =
     (let timeout = containerStopTimeoutDur in
      (ContainerStop rt, [EvContainerStop (containerID b) timeout]))"

text \<open>
  \<^verbatim>\<open>Stop\<close>. The deferred \<^verbatim>\<open>cleanupFiles\<close> runs on every return after the receiver
  check; it does not run while the removal wait blocks.
\<close>

definition Stop :: "runtime \<Rightarrow> MySQLBox option \<Rightarrow> error option outcome \<times> event list" where
  "Stop rt b =
     (case b of
        None \<Rightarrow> (Returned (Some nilError), [])
      | Some box \<Rightarrow>
          (case stopContainer rt box of
             (Some err, tr) \<Rightarrow> (Returned (Some err), tr @ cleanupFiles box)
           | (None, tr) \<Rightarrow>
               (let tr' = tr @ [EvContainerWaitRemoved (containerID box)] in
                case ContainerWait rt of
                  None \<Rightarrow> (NotReturned, tr')
                | Some WaitMsg \<Rightarrow> (Returned None, tr' @ cleanupFiles box)
                | Some (WaitErr err) \<Rightarrow>
                    if IsNotFound err then (Returned None, tr' @ cleanupFiles box)
                    else (Returned err, tr' @ cleanupFiles box))))"

section \<open>Readiness polling\<close>

text \<open>
  The loop of \<^verbatim>\<open>waitForDB\<close>, one probe result per iteration: success ends it, a
  deadline error ends it with the timeout error, any other error is followed by the
  sleep and the non-blocking receive on the exit channel. When the probe results run
  out the loop has not returned.
\<close>

fun pollLoop :: "(nat \<Rightarrow> bool) \<Rightarrow> nat \<Rightarrow> error option list \<Rightarrow> error option outcome" where
  "pollLoop closed i [] = NotReturned"
| "pollLoop closed i (err # pings) =
     (case err of
        None \<Rightarrow> Returned None
      | Some e \<Rightarrow>
          if errorsIs e DeadlineExceeded then Returned (Some (New ''could not connect to mysql''))
          else if closed i then Returned (Some (New ''container closed''))
          else pollLoop closed (Suc i) pings)"

definition waitForDB :: "(nat \<Rightarrow> error option list) \<Rightarrow> MySQLBox option \<Rightarrow> nat \<Rightarrow> (nat \<Rightarrow> bool)
    \<Rightarrow> error option outcome" where
  "waitForDB ping b timeout closed =
     (case b of
        None \<Rightarrow> Returned (Some nilError)
      | Some box \<Rightarrow> pollLoop closed 0 (ping timeout))"

section \<open>The log reader\<close>

text \<open>
  The scanner over the err channel is a \<^verbatim>\<open>bufio.Scanner\<close> with its default line
  splitting and its default token limit: a line is the bytes up to the next line feed
  (or up to the end of the stream), without a trailing carriage return.
\<close>

definition MaxScanTokenSize :: nat where
  "MaxScanTokenSize = 64 * 1024"

definition dropCR :: "string \<Rightarrow> string" where
  "dropCR data =
     (if data = [] then data
      else if last data = CHR 0x0D then butlast data else data)"

text \<open>
  The scanning goroutine over the bytes \<open>bs\<close> written to the err channel, with the
  collector \<open>errors\<close> (\<open>None\<close> when none is configured). When the bytes of a line
  fill the buffer of \<open>MaxScanTokenSize\<close> bytes before a line feed is seen, the scanner
  gives up and the loop ends; the bytes after those it has taken are never read.
  The result is the collector afterwards and the bytes left unread.
\<close>

function scanLines :: "string \<Rightarrow> string list option \<Rightarrow> string list option \<times> string" where
  "scanLines bs errors =
     (if bs = [] then (errors, [])
      else (let data = takeWhile (\<lambda>c. c \<noteq> CHR 0x0A) bs;
                rest = dropWhile (\<lambda>c. c \<noteq> CHR 0x0A) bs
            in if MaxScanTokenSize \<le> length data then (errors, drop MaxScanTokenSize bs)
               else (let line = dropCR data in
                     scanLines (tl rest)
                       (if prefix ''ERROR'' line
                        then (case errors of None \<Rightarrow> None | Some es \<Rightarrow> Some (es @ [line]))
                        else errors))))"
  by pat_completeness auto
termination
proof (relation "measure (\<lambda>(bs, errors). length bs)")
  show "wf (measure (\<lambda>(bs, errors). length bs))" by simp
next
  fix bs :: string and errors :: "string list option" and x xa xb
  assume "bs \<noteq> []" and "xa = dropWhile (\<lambda>c. c \<noteq> CHR 0x0A) bs"
  then have le: "length xa \<le> length bs" and ne: "bs \<noteq> []"
    by (simp_all add: length_dropWhile_le)
  have "length (tl xa) < length bs"
  proof (cases xa)
    case Nil
    then show ?thesis using ne by simp
  next
    case (Cons a list)
    then show ?thesis using le by simp
  qed
  then show "((tl xa, if prefix ''ERROR'' xb
                      then case errors of None \<Rightarrow> None | Some es \<Rightarrow> Some (es @ [xb])
                      else errors), bs, errors) \<in> measure (\<lambda>(bs, errors). length bs)"
    by simp
qed

declare scanLines.simps [simp del]

text \<open>
  What the log stream of a container delivers: the bytes of its err channel and the
  result of the copy (nil at end of stream).
\<close>

record logStream =
  errBytes :: string
  copyErr :: "error option"

text \<open>
  \<^verbatim>\<open>readContainerLogs\<close>: the collector afterwards, and how the call ends. The copy
  writes the err channel into a pipe that only the scanner reads, so when the scanner
  has stopped with bytes unread the copy blocks and the call does not return;
  otherwise it returns, after sending the exit signal (\<open>Returned True\<close>) when the copy
  ended without error and without sending it (\<open>Returned False\<close>) when the log stream
  could not be opened or the copy failed.
\<close>

definition readContainerLogs :: "error + logStream \<Rightarrow> string list option
    \<Rightarrow> string list option \<times> bool outcome" where
  "readContainerLogs clog errors =
     (case clog of
        Inl err \<Rightarrow> (errors, Returned False)
      | Inr s \<Rightarrow>
          (case scanLines (errBytes s) errors of
             (errors', unread) \<Rightarrow>
               if unread = []
               then (case copyErr s of
                       Some err \<Rightarrow> (errors', Returned False)
                     | None \<Rightarrow> (errors', Returned True))
               else (errors', NotReturned)))"

section \<open>Startup\<close>

definition pullImage :: "runtime \<Rightarrow> string \<Rightarrow> error option \<times> event list" where
  "pullImage rt img =
     (if img = [] then (Some (New ''image is blank''), [])
      else case ImagePull rt of
             Some err \<Rightarrow> (Some (Errorf ''docker image pull error: %w'' (Some err)), [EvImagePull img])
           | None \<Rightarrow>
               (case DisplayJSONMessagesStream rt of
                  Some err \<Rightarrow>
                    (Some (Errorf ''docker image pull stream error: %w'' (Some err)),
                     [EvImagePull img])
                | None \<Rightarrow> (None, [EvImagePull img])))"

definition containerMySQLPort :: "runtime \<Rightarrow> error + int" where
  "containerMySQLPort rt =
     (case ContainerInspect rt of
        Inl err \<Rightarrow> Inl err
      | Inr ports \<Rightarrow>
          (case ports of
             [] \<Rightarrow> Inl (New ''no port bindings'')
           | hostPort # _ \<Rightarrow>
               (case Atoi rt hostPort of Inl err \<Rightarrow> Inl err | Inr p \<Rightarrow> Inr p)))"

definition connectDB :: "runtime \<Rightarrow> int \<Rightarrow> string \<Rightarrow> string \<Rightarrow> error + sqlDB \<times> string" where
  "connectDB rt p dbName rootPass =
     (let dsn' = FormatDSN rt p dbName rootPass in
      case Open rt dsn' of
        Some err \<Rightarrow> Inl err
      | None \<Rightarrow> Inr (SqlDB dsn', dsn'))"

text \<open>
  The first block of \<^verbatim>\<open>Start\<close>: the initial script, when there is one, is written to a
  temporary file. The result is the error or the name of the file (\<open>None\<close>: no script).
\<close>

definition initialSchema :: "runtime \<Rightarrow> Config \<Rightarrow> (error + string option) \<times> event list" where
  "initialSchema rt c =
     (case InitialSQL c of
        None \<Rightarrow> (Inr None, [])
      | Some sql \<Rightarrow>
          if reader sql \<noteq> None \<or> buf sql \<noteq> None
          then (case TempFile rt of
                  Inl err \<Rightarrow> (Inl err, [])
                | Inr name \<Rightarrow>
                    (let src = (case reader sql of
                                  Some r \<Rightarrow> r
                                | None \<Rightarrow> (case buf sql of Some b \<Rightarrow> b | None \<Rightarrow> []))
                     in case Copy rt of
                          Some err \<Rightarrow> (Inl err, [EvTempFile name, EvCopy name src])
                        | None \<Rightarrow> (Inr (Some name), [EvTempFile name, EvCopy name src])))
          else (Inr None, []))"

text \<open>
  The block "Create container" of \<^verbatim>\<open>Start\<close>. Its argument \<open>err\<close> is the value of
  the variable \<^verbatim>\<open>err\<close> of \<^verbatim>\<open>Start\<close> at that point (the \<^verbatim>\<open>err\<close> of the pull is a
  variable of the inner block); the last return wraps that variable.
\<close>

definition createContainer :: "runtime \<Rightarrow> Config \<Rightarrow> string option \<Rightarrow> error option
    \<Rightarrow> (error + string) \<times> event list" where
  "createContainer rt c mount err =
     (let create = EvContainerCreate (ContainerName_cfg c) (Image c) mount;
          created = ContainerCreate rt 0;
          createErr = (case created of Inl e \<Rightarrow> Some e | Inr cid \<Rightarrow> None)
      in if IsNotFound createErr
         then (case pullImage rt (Image c) of
                 (Some perr, tr) \<Rightarrow> (Inl (Errorf ''failed to pull image: %w'' (Some perr)), create # tr)
               | (None, tr) \<Rightarrow>
                   (case ContainerCreate rt 1 of
                      Inl e \<Rightarrow> (Inl (Errorf ''error creating container: %w'' err), create # tr @ [create])
                    | Inr cid \<Rightarrow> (Inr cid, create # tr @ [create])))
         else (case created of
                 Inl e \<Rightarrow> (Inl (Errorf ''error creating container: %w'' err), [create])
               | Inr cid \<Rightarrow> (Inr cid, [create])))"

text \<open>\<^verbatim>\<open>Start\<close>: the handle or the error, and the effects in order.\<close>

definition Start :: "runtime \<Rightarrow> Config option \<Rightarrow> (error + MySQLBox) outcome \<times> event list" where
  "Start rt c0 =
     (let c = LoadDefaults (randomID rt) (case c0 of None \<Rightarrow> zeroConfig | Some c' \<Rightarrow> c') in
      case initialSchema rt c of
        (Inl e, tr0) \<Rightarrow> (Returned (Inl e), tr0)
      | (Inr schemaFile', tr0) \<Rightarrow>
     (let err = NewClientWithOpts rt in
      case err of
        Some e \<Rightarrow> (Returned (Inl e), tr0)
      | None \<Rightarrow>
     (case createContainer rt c schemaFile' err of
        (Inl e, tr1) \<Rightarrow> (Returned (Inl e), tr0 @ tr1)
      | (Inr createdID, tr1) \<Rightarrow>
     (let tr2 = tr0 @ tr1 @ [EvContainerStart createdID] in
      case ContainerStart rt of
        Some e \<Rightarrow> (Returned (Inl e), tr2)
      | None \<Rightarrow>
     (let tr3 = tr2 @ [EvReadContainerLogs createdID] in
      case containerMySQLPort rt of
        Inl e \<Rightarrow> (Returned (Inl e), tr3)
      | Inr port' \<Rightarrow>
     (case connectDB rt port' (Database c) (RootPassword c) of
        Inl e \<Rightarrow> (Returned (Inl e), tr3)
      | Inr (db', dsn') \<Rightarrow>
     (let b = \<lparr>dsn = dsn', databaseName = Database c, db = db',
               containerName = ContainerName_cfg c, containerID = createdID,
               schemaFile = schemaFile', port = port',
               doNotCleanTables = DoNotCleanTables c\<rparr> in
      case waitForDB (PingContext rt) (Some b) startTimeout (containerClosed rt) of
        Returned (Some e) \<Rightarrow> (Returned (Inl e), tr3)
      | Returned None \<Rightarrow> (Returned (Inr b), tr3)
      | Panicked e \<Rightarrow> (Panicked e, tr3)
      | NotReturned \<Rightarrow> (NotReturned, tr3))))))))"

section \<open>Reference notions used to state the properties\<close>

text \<open>
  Running a list of statements in order, whatever each one answers: the answers and
  the database afterwards.
\<close>

fun runAll :: "'db driver \<Rightarrow> string list \<Rightarrow> 'db \<Rightarrow> error option list \<times> 'db" where
  "runAll drv [] d = ([], d)"
| "runAll drv (stmt # stmts) d =
     (case Exec drv stmt d of
        (r, d') \<Rightarrow> (case runAll drv stmts d' of (rs, d'') \<Rightarrow> (r # rs, d'')))"

text \<open>The lines \<^verbatim>\<open>CleanTables\<close> writes for the answers of its statements.\<close>

fun failureLines :: "string list \<Rightarrow> error option list \<Rightarrow> string list" where
  "failureLines (table # tables) (Some e # rs) =
     truncateFailed table (errorText e) # failureLines tables rs"
| "failureLines (table # tables) (None # rs) = failureLines tables rs"
| "failureLines tables rs = []"

text \<open>
  How the reader of a statement takes a back-quoted identifier: the text that starts
  with a backquote runs to the next backquote that is not doubled, a doubled backquote
  standing for one backquote of the name. The result is the name read and the text
  left after the closing backquote; \<open>None\<close> when the text does not start with a
  backquote or the identifier is not closed.
\<close>

fun identBody :: "string \<Rightarrow> (string \<times> string) option" where
  "identBody [] = None"
| "identBody [c] = (if c = CHR 0x60 then Some ([], []) else None)"
| "identBody (c # c' # rest) =
     (if c = CHR 0x60
      then (if c' = CHR 0x60
            then (case identBody rest of
                    None \<Rightarrow> None
                  | Some (name, left) \<Rightarrow> Some (CHR 0x60 # name, left))
            else Some ([], c' # rest))
      else (case identBody (c' # rest) of
              None \<Rightarrow> None
            | Some (name, left) \<Rightarrow> Some (c # name, left)))"

definition quotedIdentifier :: "string \<Rightarrow> (string \<times> string) option" where
  "quotedIdentifier s =
     (case s of [] \<Rightarrow> None | c # rest \<Rightarrow> if c = CHR 0x60 then identBody rest else None)"

section \<open>Concrete collaborators for the runs\<close>

text \<open>
  A small database: each table with its number of rows. Its catalog is the list of its
  tables; it empties a table on the statement of that table, unless the table is
  locked (as a table referenced by a foreign key is), and rejects every other statement.
\<close>

definition lockedError :: error where
  "lockedError = External ''Error 1701: Cannot truncate a table referenced in a foreign key constraint''"

definition missingError :: error where
  "missingError = External ''Error 1146: Table does not exist''"


definition emptyTable :: "string \<Rightarrow> (string \<times> nat) list \<Rightarrow> (string \<times> nat) list" where
  "emptyTable table d = map (\<lambda>(name, n). if name = table then (name, 0) else (name, n)) d"

definition tableStore :: "string list \<Rightarrow> (string \<times> nat) list driver" where
  "tableStore locked =
     \<lparr>Query = (\<lambda>q arg d. Inr (map (\<lambda>(name, n). Inr name) d)),
      Exec = (\<lambda>stmt d.
        case find (\<lambda>name. stmt = ''TRUNCATE TABLE `'' @ name @ ''`'') (map fst d) of
          None \<Rightarrow> (Some missingError, d)
        | Some name \<Rightarrow>
            if name \<in> set locked
            then (Some lockedError, d)
            else (None, emptyTable name d))\<rparr>"

definition shopTables :: "(string \<times> nat) list" where
  "shopTables = [(''categories'', 5), (''users'', 10)]"

definition shopBox :: MySQLBox where
  "shopBox = \<lparr>dsn = ''root@tcp(127.0.0.1:49153)/testing?parseTime=true'',
     databaseName = ''testing'',
     db = SqlDB ''root@tcp(127.0.0.1:49153)/testing?parseTime=true'',
     containerName = ''mysqlbox-a1b2c3'', containerID = ''c0ffee'',
     schemaFile = Some ''/tmp/schema-1.sql'', port = 49153,
     doNotCleanTables = [''categories'']\<rparr>"

definition plainBox :: MySQLBox where
  "plainBox = shopBox\<lparr>doNotCleanTables := []\<rparr>"

text \<open>A runtime in which every call succeeds and the second probe finds the database.\<close>

definition healthyRuntime :: runtime where
  "healthyRuntime =
     \<lparr>randomID = ''a1b2c3'',
      TempFile = Inr ''/tmp/schema-1.sql'',
      Copy = None,
      NewClientWithOpts = None,
      ContainerCreate = (\<lambda>n. Inr ''c0ffee''),
      ImagePull = None,
      DisplayJSONMessagesStream = None,
      ContainerStart = None,
      ContainerInspect = Inr [''49153''],
      Atoi = (\<lambda>s. Inr 49153),
      FormatDSN = (\<lambda>p dbName rootPass. ''root@tcp(127.0.0.1:49153)/testing?parseTime=true''),
      Open = (\<lambda>d. None),
      PingContext = (\<lambda>t. [Some (External ''connection refused''), None]),
      containerClosed = (\<lambda>i. False),
      ContainerStop = None,
      ContainerWait = Some WaitMsg\<rparr>"

text \<open>The same runtime when the container name is already taken.\<close>

definition conflictRuntime :: runtime where
  "conflictRuntime =
     healthyRuntime\<lparr>ContainerCreate := (\<lambda>n. Inl (External ''Conflict: container name in use''))\<rparr>"

text \<open>The same runtime when the image is absent and creation fails again after the pull.\<close>

definition absentImageRuntime :: runtime where
  "absentImageRuntime =
     healthyRuntime\<lparr>ContainerCreate :=
       (\<lambda>n. if n = 0 then Inl (NotFound ''No such image: mysql:8'')
            else Inl (External ''no space left on device''))\<rparr>"

text \<open>The same runtime when no client can be made for the container runtime.\<close>

definition noDaemonRuntime :: runtime where
  "noDaemonRuntime =
     healthyRuntime\<lparr>NewClientWithOpts := Some (External ''unable to parse docker host'')\<rparr>"

text \<open>
  The same runtime when the container exits while the database is not yet reachable:
  two probes a second are refused until the deadline, and the exit signal is in the
  channel from the second receive on.
\<close>

definition crashingRuntime :: runtime where
  "crashingRuntime =
     healthyRuntime\<lparr>PingContext := (\<lambda>t. replicate (2 * t) (Some (External ''connection refused''))
                                      @ [Some DeadlineExceeded]),
                    containerClosed := (\<lambda>i. 1 \<le> i)\<rparr>"

text \<open>
  The same runtime when the database never answers and the container keeps running.
\<close>

definition slowRuntime :: runtime where
  "slowRuntime =
     healthyRuntime\<lparr>PingContext := (\<lambda>t. replicate (2 * t) (Some (External ''connection refused''))
                                      @ [Some DeadlineExceeded])\<rparr>"

text \<open>
  The same runtime when the container has exited, so that its exit signal is in the
  channel, while the first probe hangs until the deadline.
\<close>

definition hangingRuntime :: runtime where
  "hangingRuntime =
     healthyRuntime\<lparr>PingContext := (\<lambda>t. [Some DeadlineExceeded]),
                    containerClosed := (\<lambda>i. True)\<rparr>"

text \<open>The same runtime when the removal wait answers that the container is unknown.\<close>

definition goneRuntime :: runtime where
  "goneRuntime =
     healthyRuntime\<lparr>ContainerWait := Some (WaitErr (Some (NotFound ''No such container: c0ffee'')))\<rparr>"

text \<open>
  A log stream whose err channel carries a line of \<open>MaxScanTokenSize\<close> bytes and then
  an error line.
\<close>

definition longLineStream :: logStream where
  "longLineStream =
     \<lparr>errBytes = replicate MaxScanTokenSize (CHR ''x'') @ [CHR 0x0A]
                   @ ''ERROR 1146 (42S02) at line 2'' @ [CHR 0x0A],
      copyErr = None\<rparr>"

definition scriptConfig :: Config where
  "scriptConfig = zeroConfig\<lparr>InitialSQL :=
       Some \<lparr>buf = Some ''SELECT * FROM sales WHERE id = 1;'', reader = None\<rparr>\<rparr>"

section \<open>Table cleaning: the loops and the statements they run\<close>

lemma truncateStmt_text: "truncateStmt t = ''TRUNCATE TABLE `'' @ t @ ''`''"
  by (simp add: truncateStmt_def)

lemma truncateRows_fail:
  "\<not> ex t \<Longrightarrow> Exec drv (truncateStmt t) d = (Some e, d') \<Longrightarrow>
   truncateRows drv ex (Inr t # rows) d = (Panicked e, d', [truncateStmt t])"
  by (simp add: Let_def)

lemma truncateRows_ok:
  "\<not> ex t \<Longrightarrow> Exec drv (truncateStmt t) d = (None, d') \<Longrightarrow>
   truncateRows drv ex rows d' = (r, d'', iss) \<Longrightarrow>
   truncateRows drv ex (Inr t # rows) d = (r, d'', truncateStmt t # iss)"
  by (simp add: Let_def)

lemma runAll_Cons:
  "Exec drv s d = (r, d') \<Longrightarrow> runAll drv (s # ss) d = (r # fst (runAll drv ss d'), snd (runAll drv ss d'))"
  by (simp split: prod.splits)


lemma truncateRows_first_failure:
  "fst (runAll drv (map truncateStmt (filter (\<lambda>t. \<not> ex t) tables)) d) = replicate k None @ Some e # rest \<Longrightarrow>
   truncateRows drv ex (map Inr tables) d =
     (Panicked e,
      snd (runAll drv (take (Suc k) (map truncateStmt (filter (\<lambda>t. \<not> ex t) tables))) d),
      take (Suc k) (map truncateStmt (filter (\<lambda>t. \<not> ex t) tables)))"
proof (induction tables arbitrary: d k)
  case Nil
  then show ?case by simp
next
  case (Cons a tables)
  let ?L = "map truncateStmt (filter (\<lambda>t. \<not> ex t) tables)"
  show ?case
  proof (cases "ex a")
    case True
    then show ?thesis using Cons.IH [of d k] Cons.prems by simp
  next
    case False
    obtain r d' where e: "Exec drv (truncateStmt a) d = (r, d')"
      by (cases "Exec drv (truncateStmt a) d") auto
    have ra: "runAll drv (truncateStmt a # ?L) d = (r # fst (runAll drv ?L d'), snd (runAll drv ?L d'))"
      using e by (rule runAll_Cons)
    then have eq: "r # fst (runAll drv ?L d') = replicate k None @ Some e # rest"
      using Cons.prems False by simp
    show ?thesis
    proof (cases k)
      case 0
      then have "r = Some e" using eq by simp
      then show ?thesis
        using 0 False e truncateRows_fail [of ex a drv d e d' "map Inr tables"] by simp
    next
      case (Suc k')
      then have rn: "r = None" and tl: "fst (runAll drv ?L d') = replicate k' None @ Some e # rest"
        using eq by simp_all
      have ih: "truncateRows drv ex (map Inr tables) d' =
         (Panicked e, snd (runAll drv (take (Suc k') ?L) d'), take (Suc k') ?L)"
        using tl by (rule Cons.IH)
      have e': "Exec drv (truncateStmt a) d = (None, d')" using e rn by simp
      show ?thesis
        using Suc False e' truncateRows_ok [of ex a drv d d' "map Inr tables", OF _ _ ih]
        by (simp split: prod.splits)
    qed
  qed
qed



lemma truncateEach_runAll:
  "truncateEach drv tables d =
     (snd (runAll drv (map truncateStmt tables) d), map truncateStmt tables,
      failureLines tables (fst (runAll drv (map truncateStmt tables) d)))"
proof (induction tables arbitrary: d)
  case Nil
  show ?case by simp
next
  case (Cons a tables)
  obtain r d' where e: "Exec drv (truncateStmt a) d = (r, d')"
    by (cases "Exec drv (truncateStmt a) d") auto
  show ?case using e Cons.IH [of d'] by (cases r) (simp_all add: Let_def split: prod.splits)
qed


lemma excluded_foldl:
  "foldl (\<lambda>m table. m(table := True)) m0 ts t = (t \<in> set ts \<or> m0 t)"
  by (induction ts arbitrary: m0) auto

lemma excludedTables_mem: "excludedTables ts t = (t \<in> set ts)"
  by (simp add: excludedTables_def excluded_foldl)

lemma CleanAllTables_rows:
  "Query drv catalogQuery (databaseName b) d = Inr rows \<Longrightarrow>
   CleanAllTables drv (Some b) d = truncateRows drv (excludedTables (doNotCleanTables b)) rows d"
  by (simp add: CleanAllTables_def)

lemma filter_excluded:
  "filter (\<lambda>t. \<not> excludedTables xs t) tables = filter (\<lambda>t. t \<notin> set xs) tables"
  by (simp add: excludedTables_mem)

lemma shop_catalog:
  "Query (tableStore locked) catalogQuery (databaseName bx) shopTables = Inr (map Inr [''categories'', ''users''])"
  by (simp add: tableStore_def shopTables_def)


lemma shop_exec_locked:
  "Exec (tableStore [''categories'']) ''TRUNCATE TABLE `categories`'' shopTables = (Some lockedError, shopTables)"
  by (simp add: tableStore_def shopTables_def lockedError_def)

lemma shop_exec_users_locked:
  "Exec (tableStore [''categories'']) ''TRUNCATE TABLE `users`'' shopTables = (None, [(''categories'', 5), (''users'', 0)])"
  by (simp add: tableStore_def shopTables_def emptyTable_def)

section \<open>The claims about table cleaning\<close>

text \<open>
  Claim C2, as it is written, says that the first failing truncation of
  \<^verbatim>\<open>CleanAllTables\<close> is returned to the caller as an error. On the shop database with
  a locked \<open>categories\<close> table and no protected table, the call does not return: it
  panics with the failure of the driver.
\<close>

theorem CleanAllTables_returns_error_counterexample:
  "fst (CleanAllTables (tableStore [''categories'']) (Some plainBox) shopTables) = Panicked lockedError
   \<and> fst (CleanAllTables (tableStore [''categories'']) (Some plainBox) shopTables) \<noteq> Returned (Some lockedError)"
proof -
  have "CleanAllTables (tableStore [''categories'']) (Some plainBox) shopTables =
      truncateRows (tableStore [''categories'']) (excludedTables (doNotCleanTables plainBox))
        (map Inr [''categories'', ''users'']) shopTables"
    by (rule CleanAllTables_rows) (rule shop_catalog)
  then show ?thesis
    by (simp add: plainBox_def shopBox_def excludedTables_def truncateStmt_text shop_exec_locked)
qed

text \<open>
  Claim C2, amended: for every list of tables the catalog query yields, when the
  statements of the unprotected tables are run in order and the first \<open>k\<close> succeed
  while the next one fails with \<open>e\<close>, \<^verbatim>\<open>CleanAllTables\<close> runs exactly those
  \<open>k + 1\<close> statements, runs none for the later tables, and ends in a panic that
  carries \<open>e\<close>; it does not return an error value.
\<close>

theorem CleanAllTables_first_failure_panics:
  assumes q: "Query drv catalogQuery (databaseName b) d = Inr (map Inr tables)"
    and f: "fst (runAll drv (map truncateStmt (filter (\<lambda>t. t \<notin> set (doNotCleanTables b)) tables)) d)
             = replicate k None @ Some e # rest"
  shows "CleanAllTables drv (Some b) d =
           (Panicked e,
            snd (runAll drv (take (Suc k) (map truncateStmt (filter (\<lambda>t. t \<notin> set (doNotCleanTables b)) tables))) d),
            take (Suc k) (map truncateStmt (filter (\<lambda>t. t \<notin> set (doNotCleanTables b)) tables)))"
proof -
  let ?ex = "excludedTables (doNotCleanTables b)"
  have c: "CleanAllTables drv (Some b) d = truncateRows drv ?ex (map Inr tables) d"
    using q by (rule CleanAllTables_rows)
  have "fst (runAll drv (map truncateStmt (filter (\<lambda>t. \<not> ?ex t) tables)) d) = replicate k None @ Some e # rest"
    using f by (simp add: filter_excluded)
  then show ?thesis
    using truncateRows_first_failure [of drv ?ex tables d k e rest] c by (simp add: filter_excluded)
qed

theorem CleanAllTables_first_failure_panics_witness:
  "CleanAllTables (tableStore [''categories'']) (Some plainBox) shopTables =
     (Panicked lockedError, shopTables, [''TRUNCATE TABLE `categories`''])"
  using CleanAllTables_first_failure_panics [where drv = "tableStore [''categories'']" and b = plainBox
      and d = shopTables and tables = "[''categories'', ''users'']" and k = 0 and e = lockedError
      and rest = "[None]"]
  by (simp add: shop_catalog) (simp add: plainBox_def shopBox_def truncateStmt_text shop_exec_locked shop_exec_users_locked)




text \<open>
  Claim C6: for every list of names and every handle of a started instance,
  \<^verbatim>\<open>CleanTables\<close> runs the truncation of each name in order, each on the database the
  earlier ones left, whether or not they failed; the exclusion list of the handle
  plays no part; each failure puts one line on the standard error stream; and the
  call returns nil. The concrete run names the protected table \<open>categories\<close> and a
  table that does not exist.
\<close>

theorem CleanTables_best_effort:
  "CleanTables drv (Some b) tables d =
     (Returned None,
      snd (runAll drv (map truncateStmt tables) d),
      map truncateStmt tables,
      failureLines tables (fst (runAll drv (map truncateStmt tables) d)))"
  by (simp add: CleanTables_def truncateEach_runAll)

theorem CleanTables_best_effort_witness:
  "CleanTables (tableStore []) (Some shopBox) [''categories'', ''non_existent''] shopTables =
     (Returned None,
      [(''categories'', 0), (''users'', 10)],
      [''TRUNCATE TABLE `categories`'', ''TRUNCATE TABLE `non_existent`''],
      [''truncate table failed (non_existent): Error 1146: Table does not exist'' @ [CHR 0x0A]])"
  using CleanTables_best_effort [where drv = "tableStore []" and b = shopBox
      and tables = "[''categories'', ''non_existent'']" and d = shopTables]
  by (simp add: truncateStmt_text tableStore_def shopTables_def emptyTable_def missingError_def
      truncateFailed_def)

lemma identBody_plain:
  "CHR 0x60 \<notin> set name \<Longrightarrow> identBody (name @ [CHR 0x60]) = Some (name, [])"
proof (induction name)
  case Nil
  show ?case by simp
next
  case (Cons c cs)
  then have ih: "identBody (cs @ [CHR 0x60]) = Some (cs, [])" and c: "c \<noteq> CHR 0x60" by auto
  obtain c' rest where r: "cs @ [CHR 0x60] = c' # rest" by (cases cs) auto
  show ?case using ih c r by simp
qed

lemma identBody_length:
  "identBody s = Some (name, left) \<Longrightarrow>
   length name + length left < length s \<and>
   (Suc (length name + length left) = length s \<longrightarrow> CHR 0x60 \<notin> set name)"
proof (induction s arbitrary: name left rule: identBody.induct)
  case 1
  then show ?case by simp
next
  case (2 c)
  then show ?case by (auto split: if_splits)
next
  case (3 c c' rest)
  show ?case
  proof (cases "c = CHR 0x60")
    case True
    show ?thesis
    proof (cases "c' = CHR 0x60")
      case True
      with \<open>c = CHR 0x60\<close> 3 show ?thesis by (auto split: option.splits)
    next
      case False
      with \<open>c = CHR 0x60\<close> 3 show ?thesis by auto
    qed
  next
    case False
    with 3 show ?thesis by (auto split: option.splits)
  qed
qed

lemma identBody_broken:
  "CHR 0x60 \<in> set name \<Longrightarrow> identBody (name @ [CHR 0x60]) \<noteq> Some (name, [])"
  using identBody_length [of "name @ [CHR 0x60]" name "[]"] by auto

lemma quoted_of_stmt:
  "quotedIdentifier (drop 15 (truncateStmt name)) = identBody (name @ [CHR 0x60])"
  by (simp add: truncateStmt_text quotedIdentifier_def)

text \<open>
  Claim C10: for every table name the statement is the name copied between two
  backquotes after \<open>TRUNCATE TABLE\<close>, with nothing escaped; it is the statement
  \<^verbatim>\<open>CleanTables\<close> runs for a name it is given and \<^verbatim>\<open>CleanAllTables\<close> runs for an
  unprotected name of the catalog. When the name contains a backquote, the reader of
  the statement does not get the name as one closed identifier with nothing left
  over; when it contains none, it does.
\<close>

theorem truncate_statement_verbatim:
  "truncateStmt name = ''TRUNCATE TABLE `'' @ name @ ''`''
   \<and> fst (snd (snd (CleanTables drv (Some b) [name] d))) = [truncateStmt name]
   \<and> (name \<notin> set (doNotCleanTables b) \<and> Query drv catalogQuery (databaseName b) d = Inr [Inr name]
        \<longrightarrow> snd (snd (CleanAllTables drv (Some b) d)) = [truncateStmt name])
   \<and> (CHR 0x60 \<in> set name \<longrightarrow> quotedIdentifier (drop 15 (truncateStmt name)) \<noteq> Some (name, []))
   \<and> (CHR 0x60 \<notin> set name \<longrightarrow> quotedIdentifier (drop 15 (truncateStmt name)) = Some (name, []))"
proof -
  have a: "fst (snd (snd (CleanTables drv (Some b) [name] d))) = [truncateStmt name]"
    by (simp add: CleanTables_def Let_def split: prod.splits)
  have c: "name \<notin> set (doNotCleanTables b) \<and> Query drv catalogQuery (databaseName b) d = Inr [Inr name]
        \<longrightarrow> snd (snd (CleanAllTables drv (Some b) d)) = [truncateStmt name]"
    by (simp add: CleanAllTables_def excludedTables_mem Let_def split: prod.splits option.splits)
  have q1: "CHR 0x60 \<in> set name \<longrightarrow> quotedIdentifier (drop 15 (truncateStmt name)) \<noteq> Some (name, [])"
    by (simp only: quoted_of_stmt) (simp add: identBody_broken)
  have q2: "CHR 0x60 \<notin> set name \<longrightarrow> quotedIdentifier (drop 15 (truncateStmt name)) = Some (name, [])"
    by (simp only: quoted_of_stmt) (simp add: identBody_plain)
  show ?thesis
    by (intro conjI) (rule truncateStmt_text, rule a, rule c, rule q1, rule q2)
qed

theorem truncate_statement_verbatim_witness:
  "CHR 0x60 \<in> set ''a`b''
   \<and> truncateStmt ''a`b'' = ''TRUNCATE TABLE `a`b`''
   \<and> quotedIdentifier (drop 15 (truncateStmt ''a`b'')) \<noteq> Some (''a`b'', [])
   \<and> quotedIdentifier (drop 15 ''TRUNCATE TABLE `a`b`'') = Some (''a'', ''b`'')
   \<and> CHR 0x60 \<notin> set ''users''
   \<and> quotedIdentifier (drop 15 (truncateStmt ''users'')) = Some (''users'', [])"
proof -
  note t1 = truncate_statement_verbatim [where name = "''a`b''" and drv = "tableStore []"
      and b = shopBox and d = shopTables]
  note t2 = truncate_statement_verbatim [where name = "''users''" and drv = "tableStore []"
      and b = shopBox and d = shopTables]
  have a1: "truncateStmt ''a`b'' = ''TRUNCATE TABLE `a`b`''"
    using t1 [THEN conjunct1] by simp
  have a2: "quotedIdentifier (drop 15 (truncateStmt ''a`b'')) \<noteq> Some (''a`b'', [])"
    using t1 [THEN conjunct2, THEN conjunct2, THEN conjunct2, THEN conjunct1] by simp
  have a3: "quotedIdentifier (drop 15 ''TRUNCATE TABLE `a`b`'') = Some (''a'', ''b`'')"
    by (simp add: quotedIdentifier_def)
  have a4: "quotedIdentifier (drop 15 (truncateStmt ''users'')) = Some (''users'', [])"
    using t2 [THEN conjunct2, THEN conjunct2, THEN conjunct2, THEN conjunct2] by simp
  show ?thesis using a1 a2 a3 a4 by simp
qed

section \<open>The claims about logs and shutdown\<close>

lemma MaxScanTokenSize_pos: "0 < MaxScanTokenSize"
  by (simp add: MaxScanTokenSize_def)

lemma scanLines_Nil: "scanLines [] errors = (errors, [])"
  by (simp add: scanLines.simps)

lemma takeWhile_no_lf:
  "CHR 0x0A \<notin> set l \<Longrightarrow>
   takeWhile (\<lambda>c. c \<noteq> CHR 0x0A) (l @ rest) = l @ takeWhile (\<lambda>c. c \<noteq> CHR 0x0A) rest"
  by (induction l) auto

lemma dropWhile_no_lf:
  "CHR 0x0A \<notin> set l \<Longrightarrow>
   dropWhile (\<lambda>c. c \<noteq> CHR 0x0A) (l @ rest) = dropWhile (\<lambda>c. c \<noteq> CHR 0x0A) rest"
  by (induction l) auto

lemma scanLines_line:
  assumes "CHR 0x0A \<notin> set l" and "length l < MaxScanTokenSize"
  shows "scanLines (l @ CHR 0x0A # rest) errors =
     scanLines rest
       (if prefix ''ERROR'' (dropCR l)
        then (case errors of None \<Rightarrow> None | Some es \<Rightarrow> Some (es @ [dropCR l]))
        else errors)"
proof -
  have t: "takeWhile (\<lambda>c. c \<noteq> CHR 0x0A) (l @ CHR 0x0A # rest) = l"
    using assms(1) by (simp add: takeWhile_no_lf)
  have d: "dropWhile (\<lambda>c. c \<noteq> CHR 0x0A) (l @ CHR 0x0A # rest) = CHR 0x0A # rest"
    using assms(1) by (simp add: dropWhile_no_lf)
  show ?thesis
    using assms(2) by (subst scanLines.simps) (simp add: t d Let_def)
qed

lemma scanLines_too_long:
  assumes "CHR 0x0A \<notin> set l" and "MaxScanTokenSize \<le> length l"
  shows "scanLines (l @ rest) errors = (errors, drop MaxScanTokenSize (l @ rest))"
proof -
  have ne: "l @ rest \<noteq> []" using assms(2) MaxScanTokenSize_pos by auto
  have "takeWhile (\<lambda>c. c \<noteq> CHR 0x0A) (l @ rest) = l @ takeWhile (\<lambda>c. c \<noteq> CHR 0x0A) rest"
    using assms(1) by (rule takeWhile_no_lf)
  then have "MaxScanTokenSize \<le> length (takeWhile (\<lambda>c. c \<noteq> CHR 0x0A) (l @ rest))"
    using assms(2) by simp
  then show ?thesis
    using ne by (subst scanLines.simps) (simp add: Let_def)
qed

lemma scanLines_short_lines:
  "\<forall>l\<in>set lines. CHR 0x0A \<notin> set l \<and> length l < MaxScanTokenSize \<Longrightarrow>
   scanLines (concat (map (\<lambda>l. l @ [CHR 0x0A]) lines)) (Some es) =
     (Some (es @ filter (prefix ''ERROR'') (map dropCR lines)), [])"
proof (induction lines arbitrary: es)
  case Nil
  show ?case by (simp add: scanLines_Nil)
next
  case (Cons l lines)
  have l: "CHR 0x0A \<notin> set l" "length l < MaxScanTokenSize" using Cons.prems by simp_all
  have r: "\<forall>l\<in>set lines. CHR 0x0A \<notin> set l \<and> length l < MaxScanTokenSize" using Cons.prems by simp
  show ?case
    using scanLines_line [OF l, of "concat (map (\<lambda>l. l @ [CHR 0x0A]) lines)" "Some es"]
      Cons.IH [OF r, of es] Cons.IH [OF r, of "es @ [dropCR l]"]
    by simp
qed

lemma readContainerLogs_short_lines:
  assumes "\<forall>l\<in>set lines. CHR 0x0A \<notin> set l \<and> length l < MaxScanTokenSize"
  shows "readContainerLogs
           (Inr \<lparr>errBytes = concat (map (\<lambda>l. l @ [CHR 0x0A]) lines), copyErr = None\<rparr>) (Some es) =
         (Some (es @ filter (prefix ''ERROR'') (map dropCR lines)), Returned True)"
  using scanLines_short_lines [OF assms, of es] by (simp add: readContainerLogs_def)

text \<open>
  Claim C7, evaluated where it fails: the err channel carries a line of 65536 bytes
  and then a line that begins with \<open>ERROR\<close>. The scanner gives up on the first line,
  so the error line is never appended to the collector, and the copy blocks on the
  pipe that nobody reads any more: the call does not return and the exit signal is
  not sent. (When every line is shorter than the limit, the collector receives
  exactly the lines that begin with \<open>ERROR\<close>, in order: \<open>readContainerLogs_short_lines\<close>.)
\<close>

theorem readContainerLogs_long_line_stops_collecting:
  "readContainerLogs (Inr longLineStream) (Some []) = (Some [], NotReturned)"
proof -
  have "scanLines (replicate MaxScanTokenSize (CHR ''x'') @ ([CHR 0x0A]
                   @ ''ERROR 1146 (42S02) at line 2'' @ [CHR 0x0A])) (Some []) =
        (Some [], drop MaxScanTokenSize (replicate MaxScanTokenSize (CHR ''x'') @ ([CHR 0x0A]
                   @ ''ERROR 1146 (42S02) at line 2'' @ [CHR 0x0A])))"
    by (rule scanLines_too_long) simp_all
  then show ?thesis
    by (simp add: readContainerLogs_def longLineStream_def)
qed

text \<open>
  Claim C8: when the request to stop the container, made with the grace period of 60
  seconds, succeeds, \<^verbatim>\<open>Stop\<close> waits for the removal; a message of the wait and a
  not-found error of the wait both make it return nil, any other error of the wait is
  returned; the deferred cleanup runs in each case.
\<close>

theorem Stop_waits_for_removal:
  assumes "ContainerStop rt = None" and "ContainerWait rt = Some w"
  shows "Stop rt (Some b) =
     (Returned (case w of WaitMsg \<Rightarrow> None | WaitErr err \<Rightarrow> if IsNotFound err then None else err),
      [EvContainerStop (containerID b) 60, EvContainerWaitRemoved (containerID b)] @ cleanupFiles b)"
  using assms by (simp add: Stop_def stopContainer_def containerStopTimeoutDur_def split: waitResult.splits)

theorem Stop_waits_for_removal_witness:
  "ContainerStop goneRuntime = None
   \<and> ContainerWait goneRuntime = Some (WaitErr (Some (NotFound ''No such container: c0ffee'')))
   \<and> Stop goneRuntime (Some shopBox) =
     (Returned None,
      [EvContainerStop ''c0ffee'' 60, EvContainerWaitRemoved ''c0ffee'',
       EvClose ''/tmp/schema-1.sql'', EvRemove ''/tmp/schema-1.sql''])"
  using Stop_waits_for_removal [where rt = goneRuntime and b = shopBox
      and w = "WaitErr (Some (NotFound ''No such container: c0ffee''))"]
  by (simp add: goneRuntime_def healthyRuntime_def shopBox_def cleanupFiles_def)

text \<open>
  Claim C9: on a nil handle, each of \<^verbatim>\<open>Stop\<close>, \<^verbatim>\<open>DB\<close>, \<^verbatim>\<open>DSN\<close>, \<^verbatim>\<open>ContainerName\<close>,
  \<^verbatim>\<open>CleanAllTables\<close> and \<^verbatim>\<open>CleanTables\<close> returns the error "mysqlbox is nil"; none of
  them panics, touches the runtime or runs a statement.
\<close>

theorem nil_handle_is_reported:
  "Stop rt None = (Returned (Some (New ''mysqlbox is nil'')), [])
   \<and> DB None = Inl (New ''mysqlbox is nil'')
   \<and> DSN None = Inl (New ''mysqlbox is nil'')
   \<and> ContainerName None = Inl (New ''mysqlbox is nil'')
   \<and> CleanAllTables drv None d = (Returned (Some (New ''mysqlbox is nil'')), d, [])
   \<and> CleanTables drv None tables d = (Returned (Some (New ''mysqlbox is nil'')), d, [], [])"
  by (simp add: Stop_def DB_def DSN_def ContainerName_def CleanAllTables_def CleanTables_def nilError_def)

section \<open>The claims about startup\<close>

lemma initialSchema_no_remove: "EvRemove name \<notin> set (snd (initialSchema rt c))"
  by (simp add: initialSchema_def Let_def split: option.splits sum.splits)

lemma pullImage_no_remove: "EvRemove name \<notin> set (snd (pullImage rt img))"
  by (simp add: pullImage_def split: option.splits)

lemma createContainer_no_remove: "EvRemove name \<notin> set (snd (createContainer rt c m err))"
  using pullImage_no_remove [of name rt "Image c"]
  by (auto simp add: createContainer_def Let_def split: option.splits sum.splits prod.splits)

lemma Start_never_removes: "EvRemove name \<notin> set (snd (Start rt c0))"
proof -
  let ?c = "LoadDefaults (randomID rt) (case c0 of None \<Rightarrow> zeroConfig | Some c' \<Rightarrow> c')"
  obtain r0 tr0 where i: "initialSchema rt ?c = (r0, tr0)" by (cases "initialSchema rt ?c") auto
  have n0: "EvRemove name \<notin> set tr0" using initialSchema_no_remove [of name rt ?c] i by simp
  show ?thesis
  proof (cases r0)
    case (Inl e)
    then show ?thesis using i n0 by (simp add: Start_def Let_def)
  next
    case (Inr sf)
    obtain r1 tr1 where cr: "createContainer rt ?c sf None = (r1, tr1)"
      by (cases "createContainer rt ?c sf None") auto
    have n1: "EvRemove name \<notin> set tr1" using createContainer_no_remove [of name rt ?c sf None] cr by simp
    show ?thesis using i Inr cr n0 n1
      by (simp add: Start_def Let_def split: option.splits sum.splits prod.splits outcome.splits)
  qed
qed

lemma createContainer_error:
  "fst (createContainer rt c m None) = Inl e \<Longrightarrow>
   e = Errorf ''error creating container: %w'' None \<or>
   (\<exists>perr. e = Errorf ''failed to pull image: %w'' (Some perr))"
  by (auto simp add: createContainer_def Let_def split: option.splits sum.splits prod.splits if_splits)

lemma createContainer_pull_once:
  "ContainerCreate rt 0 = Inl (NotFound m) \<Longrightarrow> Image c \<noteq> [] \<Longrightarrow>
   snd (createContainer rt c mnt err) =
     (if ImagePull rt = None \<and> DisplayJSONMessagesStream rt = None
      then [EvContainerCreate (ContainerName_cfg c) (Image c) mnt, EvImagePull (Image c),
            EvContainerCreate (ContainerName_cfg c) (Image c) mnt]
      else [EvContainerCreate (ContainerName_cfg c) (Image c) mnt, EvImagePull (Image c)])"
  by (auto simp add: createContainer_def pullImage_def Let_def split: option.splits sum.splits)

lemma LoadDefaults_zero:
  "LoadDefaults ''a1b2c3'' zeroConfig =
     \<lparr>ContainerName_cfg = ''mysqlbox-a1b2c3'', Image = ''mysql:8'', Database = ''testing'',
      RootPassword = [], MySQLPort = 0, InitialSQL = None, DoNotCleanTables = [],
      LoggedErrors = None\<rparr>"
  by (simp add: LoadDefaults_def zeroConfig_def defaultMySQLImage_def Let_def)

lemma LoadDefaults_script:
  "LoadDefaults ''a1b2c3'' scriptConfig =
     \<lparr>ContainerName_cfg = ''mysqlbox-a1b2c3'', Image = ''mysql:8'', Database = ''testing'',
      RootPassword = [], MySQLPort = 0,
      InitialSQL = Some \<lparr>buf = Some ''SELECT * FROM sales WHERE id = 1;'', reader = None\<rparr>,
      DoNotCleanTables = [], LoggedErrors = None\<rparr>"
  by (simp add: LoadDefaults_def scriptConfig_def zeroConfig_def defaultMySQLImage_def Let_def)

lemma Start_absent_image:
  "Start absentImageRuntime None =
     (Returned (Inl (Errorf ''error creating container: %w'' None)),
      [EvContainerCreate ''mysqlbox-a1b2c3'' ''mysql:8'' None, EvImagePull ''mysql:8'',
       EvContainerCreate ''mysqlbox-a1b2c3'' ''mysql:8'' None])"
  by (simp add: Start_def absentImageRuntime_def healthyRuntime_def LoadDefaults_zero
      initialSchema_def createContainer_def pullImage_def Let_def)

lemma Start_after_provisioning:
  assumes "c = LoadDefaults (randomID rt) (case c0 of None \<Rightarrow> zeroConfig | Some c' \<Rightarrow> c')"
    and "initialSchema rt c = (Inr sf, tr0)"
    and "NewClientWithOpts rt = None"
    and "createContainer rt c sf None = (Inr cid, tr1)"
    and "ContainerStart rt = None"
    and "containerMySQLPort rt = Inr p"
    and "connectDB rt p (Database c) (RootPassword c) = Inr (h, s)"
  shows "(fst (Start rt c0) = Returned (Inl e)) =
         (pollLoop (containerClosed rt) 0 (PingContext rt 30) = Returned (Some e))"
  using assms(2-) unfolding Start_def assms(1) [symmetric]
  by (simp add: Let_def waitForDB_def startTimeout_def split: outcome.splits option.splits)

lemma pollLoop_closed:
  "k < length pings \<Longrightarrow>
   \<forall>i\<le>k. \<exists>e. pings ! i = Some e \<and> \<not> errorsIs e DeadlineExceeded \<Longrightarrow>
   closed (n + k) \<Longrightarrow>
   pollLoop closed n pings = Returned (Some (New ''container closed''))"
proof (induction pings arbitrary: n k)
  case Nil
  then show ?case by simp
next
  case (Cons p pings)
  from Cons.prems(2) obtain e where p: "p = Some e" and nd: "\<not> errorsIs e DeadlineExceeded"
    by (metis le0 nth_Cons_0)
  show ?case
  proof (cases "closed n")
    case True
    then show ?thesis using p nd by simp
  next
    case False
    then obtain k' where k: "k = Suc k'" using Cons.prems(3) by (cases k) auto
    have "k' < length pings" using Cons.prems(1) k by simp
    moreover have "\<forall>i\<le>k'. \<exists>e. pings ! i = Some e \<and> \<not> errorsIs e DeadlineExceeded"
    proof (intro allI impI)
      fix i assume "i \<le> k'"
      then have "Suc i \<le> k" using k by simp
      then show "\<exists>e. pings ! i = Some e \<and> \<not> errorsIs e DeadlineExceeded"
        using Cons.prems(2) by fastforce
    qed
    moreover have "closed (Suc n + k')" using Cons.prems(3) k by simp
    ultimately have "pollLoop closed (Suc n) pings = Returned (Some (New ''container closed''))"
      by (rule Cons.IH)
    then show ?thesis using p nd False by simp
  qed
qed

lemma pollLoop_timeout:
  "pollLoop closed n pings = Returned (Some (New ''could not connect to mysql'')) \<Longrightarrow>
   \<exists>j<length pings. (\<exists>e. pings ! j = Some e \<and> errorsIs e DeadlineExceeded) \<and>
      (\<forall>i<j. (\<exists>e. pings ! i = Some e \<and> \<not> errorsIs e DeadlineExceeded) \<and> \<not> closed (n + i))"
proof (induction pings arbitrary: n)
  case Nil
  then show ?case by simp
next
  case (Cons p pings)
  show ?case
  proof (cases p)
    case None
    then show ?thesis using Cons.prems by simp
  next
    case (Some e)
    show ?thesis
    proof (cases "errorsIs e DeadlineExceeded")
      case True
      then have "0 < length (p # pings) \<and> (\<exists>e. (p # pings) ! 0 = Some e \<and> errorsIs e DeadlineExceeded)
        \<and> (\<forall>i<0. (\<exists>e. (p # pings) ! i = Some e \<and> \<not> errorsIs e DeadlineExceeded) \<and> \<not> closed (n + i))"
        using Some by simp
      then show ?thesis by blast
    next
      case False
      then have nc: "\<not> closed n" using Cons.prems Some by (auto split: if_splits)
      then have "pollLoop closed (Suc n) pings = Returned (Some (New ''could not connect to mysql''))"
        using Cons.prems Some False by simp
      then obtain j where j: "j < length pings" "\<exists>e. pings ! j = Some e \<and> errorsIs e DeadlineExceeded"
        "\<forall>i<j. (\<exists>e. pings ! i = Some e \<and> \<not> errorsIs e DeadlineExceeded) \<and> \<not> closed (Suc n + i)"
        using Cons.IH [of "Suc n"] by blast
      have "\<forall>i<Suc j. (\<exists>e. (p # pings) ! i = Some e \<and> \<not> errorsIs e DeadlineExceeded) \<and> \<not> closed (n + i)"
      proof (intro allI impI)
        fix i assume i: "i < Suc j"
        show "(\<exists>e. (p # pings) ! i = Some e \<and> \<not> errorsIs e DeadlineExceeded) \<and> \<not> closed (n + i)"
        proof (cases i)
          case 0
          then show ?thesis using Some False nc by simp
        next
          case (Suc i')
          then have "i' < j" using i by simp
          then show ?thesis using j(3) Suc by simp
        qed
      qed
      moreover have "Suc j < length (p # pings)" using j(1) by simp
      moreover have "\<exists>e. (p # pings) ! Suc j = Some e \<and> errorsIs e DeadlineExceeded" using j(2) by simp
      ultimately show ?thesis by blast
    qed
  qed
qed

lemma pollLoop_deadline:
  "j < length pings \<Longrightarrow>
   \<exists>e. pings ! j = Some e \<and> errorsIs e DeadlineExceeded \<Longrightarrow>
   \<forall>i<j. (\<exists>e. pings ! i = Some e \<and> \<not> errorsIs e DeadlineExceeded) \<and> \<not> closed (n + i) \<Longrightarrow>
   pollLoop closed n pings = Returned (Some (New ''could not connect to mysql''))"
proof (induction pings arbitrary: n j)
  case Nil
  then show ?case by simp
next
  case (Cons p pings)
  show ?case
  proof (cases j)
    case 0
    then show ?thesis using Cons.prems(2) by auto
  next
    case (Suc j')
    then obtain e where p: "p = Some e" and nd: "\<not> errorsIs e DeadlineExceeded" and nc: "\<not> closed n"
      using Cons.prems(3) by fastforce
    have "j' < length pings" using Cons.prems(1) Suc by simp
    moreover have "\<exists>e. pings ! j' = Some e \<and> errorsIs e DeadlineExceeded"
      using Cons.prems(2) Suc by simp
    moreover have "\<forall>i<j'. (\<exists>e. pings ! i = Some e \<and> \<not> errorsIs e DeadlineExceeded) \<and> \<not> closed (Suc n + i)"
    proof (intro allI impI)
      fix i assume "i < j'"
      then have "Suc i < j" using Suc by simp
      then show "(\<exists>e. pings ! i = Some e \<and> \<not> errorsIs e DeadlineExceeded) \<and> \<not> closed (Suc n + i)"
        using Cons.prems(3) by fastforce
    qed
    ultimately have "pollLoop closed (Suc n) pings = Returned (Some (New ''could not connect to mysql''))"
      by (rule Cons.IH)
    then show ?thesis using p nd nc by simp
  qed
qed

lemma fixture_provisioned:
  assumes "rt = healthyRuntime\<lparr>PingContext := pc, containerClosed := cc\<rparr>"
  shows "LoadDefaults ''a1b2c3'' scriptConfig =
           LoadDefaults (randomID rt) (case Some scriptConfig of None \<Rightarrow> zeroConfig | Some c' \<Rightarrow> c')"
    and "initialSchema rt (LoadDefaults ''a1b2c3'' scriptConfig) =
           (Inr (Some ''/tmp/schema-1.sql''),
            [EvTempFile ''/tmp/schema-1.sql'',
             EvCopy ''/tmp/schema-1.sql'' ''SELECT * FROM sales WHERE id = 1;''])"
    and "NewClientWithOpts rt = None"
    and "createContainer rt (LoadDefaults ''a1b2c3'' scriptConfig) (Some ''/tmp/schema-1.sql'') None =
           (Inr ''c0ffee'',
            [EvContainerCreate ''mysqlbox-a1b2c3'' ''mysql:8'' (Some ''/tmp/schema-1.sql'')])"
    and "ContainerStart rt = None"
    and "containerMySQLPort rt = Inr 49153"
    and "connectDB rt 49153 (Database (LoadDefaults ''a1b2c3'' scriptConfig))
           (RootPassword (LoadDefaults ''a1b2c3'' scriptConfig)) =
           Inr (SqlDB ''root@tcp(127.0.0.1:49153)/testing?parseTime=true'',
                ''root@tcp(127.0.0.1:49153)/testing?parseTime=true'')"
  by (simp_all add: assms healthyRuntime_def LoadDefaults_script initialSchema_def
      createContainer_def containerMySQLPort_def connectDB_def Let_def)

lemma crashing_fields:
  "PingContext crashingRuntime 30 =
     replicate 60 (Some (External ''connection refused'')) @ [Some DeadlineExceeded]"
  "containerClosed crashingRuntime i = (1 \<le> i)"
  by (simp_all add: crashingRuntime_def healthyRuntime_def)

lemma slow_fields:
  "PingContext slowRuntime 30 =
     replicate 60 (Some (External ''connection refused'')) @ [Some DeadlineExceeded]"
  "containerClosed slowRuntime i = False"
  by (simp_all add: slowRuntime_def healthyRuntime_def)

lemma hanging_fields:
  "PingContext hangingRuntime 30 = [Some DeadlineExceeded]"
  "containerClosed hangingRuntime i = True"
  by (simp_all add: hangingRuntime_def healthyRuntime_def)

lemma Start_crashing:
  "Start crashingRuntime (Some scriptConfig) =
     (Returned (Inl (New ''container closed'')),
      [EvTempFile ''/tmp/schema-1.sql'',
       EvCopy ''/tmp/schema-1.sql'' ''SELECT * FROM sales WHERE id = 1;'',
       EvContainerCreate ''mysqlbox-a1b2c3'' ''mysql:8'' (Some ''/tmp/schema-1.sql''),
       EvContainerStart ''c0ffee'', EvReadContainerLogs ''c0ffee''])"
proof -
  have "pollLoop (containerClosed crashingRuntime) 0 (PingContext crashingRuntime 30) =
      Returned (Some (New ''container closed''))"
    by (rule pollLoop_closed [where k = 1]) (simp_all add: crashing_fields nth_append le_Suc_eq)
  then show ?thesis
    by (simp add: Start_def crashingRuntime_def healthyRuntime_def LoadDefaults_script
      initialSchema_def createContainer_def containerMySQLPort_def connectDB_def waitForDB_def
      startTimeout_def Let_def)
qed

lemma Start_healthy:
  "Start healthyRuntime (Some scriptConfig) =
     (Returned (Inr (shopBox\<lparr>doNotCleanTables := []\<rparr>)),
      [EvTempFile ''/tmp/schema-1.sql'',
       EvCopy ''/tmp/schema-1.sql'' ''SELECT * FROM sales WHERE id = 1;'',
       EvContainerCreate ''mysqlbox-a1b2c3'' ''mysql:8'' (Some ''/tmp/schema-1.sql''),
       EvContainerStart ''c0ffee'', EvReadContainerLogs ''c0ffee''])"
  by (simp add: Start_def healthyRuntime_def LoadDefaults_script shopBox_def
      initialSchema_def createContainer_def containerMySQLPort_def connectDB_def waitForDB_def
      Let_def)

lemma Stop_removes_once:
  "ContainerWait rt \<noteq> None \<or> ContainerStop rt \<noteq> None \<Longrightarrow> schemaFile b = Some name \<Longrightarrow>
   length (filter (\<lambda>ev. ev = EvRemove name) (snd (Stop rt (Some b)))) = 1"
  by (auto simp add: Stop_def stopContainer_def cleanupFiles_def Let_def
      split: option.splits waitResult.splits)

text \<open>
  Claim C3, evaluated where it fails: the container name is taken, so the only
  creation call fails with an error that is not "not found". \<^verbatim>\<open>Start\<close> makes no pull
  and no second call, as the claim says, but the error it returns wraps the nil
  variable \<^verbatim>\<open>err\<close> instead of the creation error: it has nothing to unwrap, the
  creation error is not in its chain, and its text ends in the nil marker.
\<close>

theorem Start_create_error_dropped:
  "Start conflictRuntime None =
     (Returned (Inl (Errorf ''error creating container: %w'' None)),
      [EvContainerCreate ''mysqlbox-a1b2c3'' ''mysql:8'' None])
   \<and> Unwrap (Errorf ''error creating container: %w'' None) = None
   \<and> \<not> errorsIs (Errorf ''error creating container: %w'' None) (External ''Conflict: container name in use'')
   \<and> errorText (Errorf ''error creating container: %w'' None) = ''error creating container: %!w(<nil>)''"
  by (simp add: Start_def conflictRuntime_def healthyRuntime_def LoadDefaults_zero
      initialSchema_def createContainer_def Let_def)

text \<open>
  Claim C4, evaluated where it fails: with an initial script configured and no client
  for the container runtime, \<^verbatim>\<open>Start\<close> returns the error after creating and writing
  the temporary file, and never removes it.
\<close>

theorem Start_failure_leaves_script_file:
  "Start noDaemonRuntime (Some scriptConfig) =
     (Returned (Inl (External ''unable to parse docker host'')),
      [EvTempFile ''/tmp/schema-1.sql'',
       EvCopy ''/tmp/schema-1.sql'' ''SELECT * FROM sales WHERE id = 1;''])
   \<and> EvRemove ''/tmp/schema-1.sql'' \<notin> set (snd (Start noDaemonRuntime (Some scriptConfig)))"
  by (simp add: Start_def noDaemonRuntime_def healthyRuntime_def LoadDefaults_script
      initialSchema_def Let_def)

text \<open>
  Claim C1, as it is written, says that the timeout error is returned only without
  the exit signal, and that an exit before the deadline gives the exited-early error.
  In \<open>hangingRuntime\<close> the container has exited and its signal is in the channel, no
  probe has succeeded, and the first probe ends with the deadline: \<^verbatim>\<open>Start\<close> returns
  "could not connect to mysql", because the result of the probe is examined before
  the channel.
\<close>

theorem Start_timeout_despite_exit_signal_counterexample:
  "containerClosed hangingRuntime 0
   \<and> fst (Start hangingRuntime (Some scriptConfig)) = Returned (Inl (New ''could not connect to mysql''))
   \<and> fst (Start hangingRuntime (Some scriptConfig)) \<noteq> Returned (Inl (New ''container closed''))"
proof -
  have h: "hangingRuntime = healthyRuntime\<lparr>PingContext := PingContext hangingRuntime,
        containerClosed := containerClosed hangingRuntime\<rparr>"
    by (simp add: hangingRuntime_def)
  have "fst (Start hangingRuntime (Some scriptConfig)) = Returned (Inl (New ''could not connect to mysql''))"
    using Start_after_provisioning [OF fixture_provisioned [OF h], of "New ''could not connect to mysql''"]
    by (simp add: hanging_fields)
  then show ?thesis by (simp add: hanging_fields)
qed

text \<open>
  Claim C1, amended: when startup has come as far as the readiness wait, the probes
  run under the deadline of 30 seconds, and (1) if the exit signal is in the channel
  at the receive of iteration \<open>k\<close> and no probe up to that iteration has succeeded or
  ended with the deadline, \<^verbatim>\<open>Start\<close> fails with "container closed", not with the
  timeout error; (2) if a probe ends with the deadline after every earlier probe
  failed otherwise and no earlier receive found the exit signal, \<^verbatim>\<open>Start\<close> fails with
  "could not connect to mysql", whether or not the exit signal is in the channel by
  then; (3) the timeout error is returned only in the situation of (2).
\<close>

theorem Start_exit_signal_or_timeout:
  assumes "c = LoadDefaults (randomID rt) (case c0 of None \<Rightarrow> zeroConfig | Some c' \<Rightarrow> c')"
    and "initialSchema rt c = (Inr sf, tr0)"
    and "NewClientWithOpts rt = None"
    and "createContainer rt c sf None = (Inr cid, tr1)"
    and "ContainerStart rt = None"
    and "containerMySQLPort rt = Inr p"
    and "connectDB rt p (Database c) (RootPassword c) = Inr (h, s)"
  shows "(k < length (PingContext rt 30) \<and>
          (\<forall>i\<le>k. \<exists>e. PingContext rt 30 ! i = Some e \<and> \<not> errorsIs e DeadlineExceeded) \<and>
          containerClosed rt k
            \<longrightarrow> fst (Start rt c0) = Returned (Inl (New ''container closed'')))
       \<and> (j < length (PingContext rt 30) \<and>
          (\<exists>e. PingContext rt 30 ! j = Some e \<and> errorsIs e DeadlineExceeded) \<and>
          (\<forall>i<j. (\<exists>e. PingContext rt 30 ! i = Some e \<and> \<not> errorsIs e DeadlineExceeded) \<and>
                 \<not> containerClosed rt i)
            \<longrightarrow> fst (Start rt c0) = Returned (Inl (New ''could not connect to mysql'')))
       \<and> (fst (Start rt c0) = Returned (Inl (New ''could not connect to mysql''))
            \<longrightarrow> (\<exists>j<length (PingContext rt 30).
                   (\<exists>e. PingContext rt 30 ! j = Some e \<and> errorsIs e DeadlineExceeded) \<and>
                   (\<forall>i<j. (\<exists>e. PingContext rt 30 ! i = Some e \<and> \<not> errorsIs e DeadlineExceeded) \<and>
                          \<not> containerClosed rt i)))"
proof -
  note s = Start_after_provisioning [OF assms]
  have a: "k < length (PingContext rt 30) \<and>
          (\<forall>i\<le>k. \<exists>e. PingContext rt 30 ! i = Some e \<and> \<not> errorsIs e DeadlineExceeded) \<and>
          containerClosed rt k
            \<longrightarrow> fst (Start rt c0) = Returned (Inl (New ''container closed''))"
    using pollLoop_closed [of k "PingContext rt 30" "containerClosed rt" 0] s by simp
  have b: "j < length (PingContext rt 30) \<and>
          (\<exists>e. PingContext rt 30 ! j = Some e \<and> errorsIs e DeadlineExceeded) \<and>
          (\<forall>i<j. (\<exists>e. PingContext rt 30 ! i = Some e \<and> \<not> errorsIs e DeadlineExceeded) \<and>
                 \<not> containerClosed rt i)
            \<longrightarrow> fst (Start rt c0) = Returned (Inl (New ''could not connect to mysql''))"
    using pollLoop_deadline [of j "PingContext rt 30" "containerClosed rt" 0] s by simp
  have c: "fst (Start rt c0) = Returned (Inl (New ''could not connect to mysql''))
            \<longrightarrow> (\<exists>j<length (PingContext rt 30).
                   (\<exists>e. PingContext rt 30 ! j = Some e \<and> errorsIs e DeadlineExceeded) \<and>
                   (\<forall>i<j. (\<exists>e. PingContext rt 30 ! i = Some e \<and> \<not> errorsIs e DeadlineExceeded) \<and>
                          \<not> containerClosed rt i))"
    using pollLoop_timeout [of "containerClosed rt" 0 "PingContext rt 30"] s by simp
  show ?thesis using a b c by (intro conjI)
qed

theorem Start_exit_signal_or_timeout_witness:
  "containerClosed crashingRuntime 1
   \<and> fst (Start crashingRuntime (Some scriptConfig)) = Returned (Inl (New ''container closed''))
   \<and> fst (Start slowRuntime (Some scriptConfig)) = Returned (Inl (New ''could not connect to mysql''))
   \<and> containerClosed hangingRuntime 0
   \<and> fst (Start hangingRuntime (Some scriptConfig)) = Returned (Inl (New ''could not connect to mysql''))"
proof -
  have c: "crashingRuntime = healthyRuntime\<lparr>PingContext := PingContext crashingRuntime,
        containerClosed := containerClosed crashingRuntime\<rparr>"
    by (simp add: crashingRuntime_def)
  have s: "slowRuntime = healthyRuntime\<lparr>PingContext := PingContext slowRuntime,
        containerClosed := containerClosed slowRuntime\<rparr>"
    by (simp add: slowRuntime_def)
  have h: "hangingRuntime = healthyRuntime\<lparr>PingContext := PingContext hangingRuntime,
        containerClosed := containerClosed hangingRuntime\<rparr>"
    by (simp add: hangingRuntime_def)
  have 1: "fst (Start crashingRuntime (Some scriptConfig)) = Returned (Inl (New ''container closed''))"
    using Start_exit_signal_or_timeout [OF fixture_provisioned [OF c], where k = 1, THEN conjunct1]
    by (simp add: crashing_fields nth_append le_Suc_eq)
  have 2: "fst (Start slowRuntime (Some scriptConfig)) = Returned (Inl (New ''could not connect to mysql''))"
    using Start_exit_signal_or_timeout [OF fixture_provisioned [OF s], where j = 60,
        THEN conjunct2, THEN conjunct1]
    by (simp add: slow_fields nth_append)
  have 3: "fst (Start hangingRuntime (Some scriptConfig)) = Returned (Inl (New ''could not connect to mysql''))"
    using Start_exit_signal_or_timeout [OF fixture_provisioned [OF h], where j = 0,
        THEN conjunct2, THEN conjunct1]
    by (simp add: hanging_fields)
  show ?thesis using 1 2 3 by (simp add: crashing_fields hanging_fields)
qed

end
